theory Spec2Isabelle
  imports Main
begin

section \<open>Strings and the installation token\<close>

text \<open>
  Strings are lists of 8-bit characters. \<open>String.prototype.trim\<close> removes the
  white space of both ends; \<open>String.prototype.split\<close> with a one-character separator
  cuts at every occurrence of the separator and always returns at least one piece.
\<close>

definition white_space :: "char \<Rightarrow> bool" where
  "white_space c = (c \<in> set [CHR 0x09, CHR 0x0A, CHR 0x0B, CHR 0x0C, CHR 0x0D, CHR 0x20, CHR 0xA0])"

definition trim :: "string \<Rightarrow> string" where
  "trim s = rev (dropWhile white_space (rev (dropWhile white_space s)))"

fun split :: "char \<Rightarrow> string \<Rightarrow> string list" where
  "split c [] = [[]]"
| "split c (x # xs) =
     (if x = c then [] # split c xs
      else (x # hd (split c xs)) # tl (split c xs))"

text \<open>Array destructuring \<open>[a, b] = arr\<close>: a position past the end reads \<open>undefined\<close>.\<close>

definition element :: "'a list \<Rightarrow> nat \<Rightarrow> 'a option" where
  "element xs i = (if i < length xs then Some (xs ! i) else None)"

text \<open>\<open>!s\<close> for a value that is a string or \<open>undefined\<close>.\<close>

definition falsy_string :: "string option \<Rightarrow> bool" where
  "falsy_string s = (case s of None \<Rightarrow> True | Some t \<Rightarrow> t = [])"

section \<open>Configuration\<close>

record trackingIntervals =
  dailyActiveUser :: "int option"
  weeklyActiveUser :: "int option"
  monthlyActiveUser :: "int option"
  yearlyActiveUser :: "int option"

record LuminConfig =
  environment :: "string option"
  automaticallyTrackActiveUsers :: "bool option"
  trackingIntervals :: "trackingIntervals option"
  url :: "string option"
  logResponse :: "bool option"
  logError :: "bool option"

definition defaultConfig :: LuminConfig where
  "defaultConfig =
     \<lparr>environment = Some ''default'',
      automaticallyTrackActiveUsers = Some True,
      trackingIntervals = None,
      url = Some ''https://app.uselumin.co'',
      logResponse = Some False,
      logError = Some True\<rparr>"

definition override :: "'a option \<Rightarrow> 'a option \<Rightarrow> 'a option" where
  "override d c = (case c of None \<Rightarrow> d | Some v \<Rightarrow> Some v)"

text \<open>The object spread \<open>{ ...defaultConfig, ...config }\<close>: a shallow merge.\<close>

definition spread :: "LuminConfig \<Rightarrow> LuminConfig \<Rightarrow> LuminConfig" where
  "spread d c =
     \<lparr>environment = override (environment d) (environment c),
      automaticallyTrackActiveUsers =
        override (automaticallyTrackActiveUsers d) (automaticallyTrackActiveUsers c),
      trackingIntervals = override (trackingIntervals d) (trackingIntervals c),
      url = override (url d) (url c),
      logResponse = override (logResponse d) (logResponse c),
      logError = override (logError d) (logError c)\<rparr>"

record Info =
  platform :: string
  platformVersion :: string
  luminVersion :: string

record AsyncStorageKeys =
  firstOpenTime :: string
  endOfLastSession :: string
  lastDauTracked :: string
  lastWauTracked :: string
  lastMauTracked :: string
  lastYauTracked :: string

section \<open>Instants and the calendar\<close>

text \<open>
  An instant is a number of milliseconds since the epoch, as \<open>Date.prototype.getTime\<close>
  gives it. The local time zone is a fixed offset \<open>tz\<close> in minutes east of UTC.
  The calendar is the proleptic Gregorian one of the \<open>Date\<close> object; the functions
  below follow what \<open>date-fns\<close> documents for the calls the tracker makes (no options:
  the week starts with \<open>weekStartsOn = 0\<close>, a Sunday).
\<close>

type_synonym instant = int

definition ms_per_day :: int where
  "ms_per_day = 86400000"

definition local_day :: "int \<Rightarrow> instant \<Rightarrow> int" where
  "local_day tz t = (t + tz * 60000) div ms_per_day"

definition day_start :: "int \<Rightarrow> int \<Rightarrow> instant" where
  "day_start tz d = d * ms_per_day - tz * 60000"

text \<open>Days since 1970-01-01 to (year, month, day of month) and back.\<close>

definition civil_from_days :: "int \<Rightarrow> int \<times> int \<times> int" where
  "civil_from_days days =
     (let z = days + 719468;
          era = z div 146097;
          doe = z - era * 146097;
          yoe = (doe - doe div 1460 + doe div 36524 - doe div 146096) div 365;
          y = yoe + era * 400;
          doy = doe - (365 * yoe + yoe div 4 - yoe div 100);
          mp = (5 * doy + 2) div 153;
          d = doy - (153 * mp + 2) div 5 + 1;
          m = (if mp < 10 then mp + 3 else mp - 9)
      in (if m \<le> 2 then y + 1 else y, m, d))"

definition days_from_civil :: "int \<Rightarrow> int \<Rightarrow> int \<Rightarrow> int" where
  "days_from_civil y0 m d =
     (let y = (if m \<le> 2 then y0 - 1 else y0);
          era = y div 400;
          yoe = y - era * 400;
          doy = (153 * (if m > 2 then m - 3 else m + 9) + 2) div 5 + d - 1;
          doe = yoe * 365 + yoe div 4 - yoe div 100 + doy
      in era * 146097 + doe - 719468)"

text \<open>\<open>Date.prototype.getDay\<close>: 0 is Sunday; 1970-01-01 was a Thursday.\<close>

definition getDay :: "int \<Rightarrow> int" where
  "getDay days = (days + 4) mod 7"

definition startOfDay :: "int \<Rightarrow> instant \<Rightarrow> instant" where
  "startOfDay tz t = day_start tz (local_day tz t)"

definition startOfWeek :: "int \<Rightarrow> instant \<Rightarrow> instant" where
  "startOfWeek tz t =
     (let weekStartsOn = 0;
          day = getDay (local_day tz t);
          diff = (if day < weekStartsOn then 7 else 0) + day - weekStartsOn
      in day_start tz (local_day tz t - diff))"

definition startOfMonth :: "int \<Rightarrow> instant \<Rightarrow> instant" where
  "startOfMonth tz t =
     (case civil_from_days (local_day tz t) of
        (y, m, d) \<Rightarrow> day_start tz (days_from_civil y m 1))"

definition startOfYear :: "int \<Rightarrow> instant \<Rightarrow> instant" where
  "startOfYear tz t =
     (case civil_from_days (local_day tz t) of
        (y, m, d) \<Rightarrow> day_start tz (days_from_civil y 1 1))"

text \<open>
  A \<open>Date\<close> object is an instant or the Invalid Date (\<open>None\<close>).
  \<open>differenceInSeconds\<close> divides the difference in milliseconds by 1000 and truncates
  towards zero; with an Invalid Date it is \<open>NaN\<close> (\<open>None\<close>). \<open>isBefore\<close> compares the two
  times and is false for an Invalid Date.
\<close>

definition trunc_div :: "int \<Rightarrow> int \<Rightarrow> int" where
  "trunc_div a b = (if a < 0 then - ((- a) div b) else a div b)"

definition differenceInSeconds :: "instant option \<Rightarrow> instant option \<Rightarrow> int option" where
  "differenceInSeconds l r =
     (case (l, r) of (Some a, Some b) \<Rightarrow> Some (trunc_div (a - b) 1000) | _ \<Rightarrow> None)"

definition isBefore :: "instant option \<Rightarrow> instant option \<Rightarrow> bool" where
  "isBefore l r = (case (l, r) of (Some a, Some b) \<Rightarrow> a < b | _ \<Rightarrow> False)"

text \<open>\<open>x > y\<close> on numbers: false when the left side is \<open>NaN\<close>.\<close>

definition greater :: "int option \<Rightarrow> int \<Rightarrow> bool" where
  "greater x y = (case x of None \<Rightarrow> False | Some a \<Rightarrow> a > y)"

section \<open>Values, requests and the instance\<close>

datatype period = Daily | Weekly | Monthly | Yearly

datatype AppStateStatus = Active | Background | Inactive | Unknown | Extension

text \<open>
  The JavaScript values that travel through promises and event payloads. A string the
  store holds under one of the tracker's keys is the text \<open>new Date().toString()\<close> gave:
  \<open>DateText s\<close> is that text for second \<open>s\<close> since the epoch (the text has no
  milliseconds), it is never empty and \<open>new Date(text)\<close> reads second \<open>s\<close> back.
\<close>

datatype jsval =
    Undefined
  | Null
  | NaN
  | Num int
  | Boolean bool
  | Text string
  | DateText int
  | InfoObject Info
  | ErrorValue string
  | Response bool
  | Json

type_synonym data = "(string \<times> jsval) list"

definition truthy :: "jsval \<Rightarrow> bool" where
  "truthy v =
     (case v of Undefined \<Rightarrow> False | Null \<Rightarrow> False | NaN \<Rightarrow> False
      | Num n \<Rightarrow> n \<noteq> 0 | Boolean b \<Rightarrow> b | Text s \<Rightarrow> s \<noteq> [] | _ \<Rightarrow> True)"

definition toString :: "instant \<Rightarrow> int" where
  "toString t = t div 1000"

definition new_Date :: "jsval \<Rightarrow> instant option" where
  "new_Date v = (case v of DateText s \<Rightarrow> Some (s * 1000) | _ \<Rightarrow> None)"

definition number :: "int option \<Rightarrow> jsval" where
  "number x = (case x of None \<Rightarrow> NaN | Some n \<Rightarrow> Num n)"

text \<open>An object literal with a spread: a later key replaces an earlier one.\<close>

fun put :: "string \<Rightarrow> jsval \<Rightarrow> data \<Rightarrow> data" where
  "put k v [] = [(k, v)]"
| "put k v ((k', v') # d) = (if k = k' then (k, v) # d else (k', v') # put k v d)"

definition merge :: "data \<Rightarrow> data \<Rightarrow> data" where
  "merge base extra = fold (\<lambda>(k, v). put k v) extra base"

record request =
  endpoint :: string
  event_type :: string
  event_data :: data
  event_environment :: "string option"
  appToken :: string

record lumin =
  id_L :: string
  token :: string
  config :: LuminConfig
  info :: Info
  asyncStorageKeys :: AsyncStorageKeys

section \<open>The runtime: promises, the store, the network\<close>

type_synonym pid = nat

datatype outcome = Fulfilled jsval | Rejected jsval

text \<open>
  Every function the source passes to \<open>then\<close> or \<open>catch\<close> is a \<open>callback\<close>; the
  rest of an async function after its \<open>await\<close> is a \<open>kont\<close>.
\<close>

datatype callback =
    CB_setFirstOpenTime
  | CB_persist period
  | CB_response
  | CB_json
  | CB_error

datatype kont =
    K_startSession
  | K_trackActiveUser period
  | K_clear

datatype reaction =
    Then callback pid
  | Catch callback pid
  | Await kont pid
  | All_element pid

datatype pstate = Pending "reaction list" | Settled outcome

datatype storage_op = GetItem string | SetItem string int | RemoveItem string

datatype obs =
    Fetch_start pid request
  | Fetch_done pid bool
  | Storage_call storage_op
  | Storage_done storage_op bool
  | Console_log jsval
  | Unhandled_rejection jsval

record machine =
  clock :: instant
  tz :: int
  store :: "string \<rightharpoonup> int"
  storeQ :: "(storage_op \<times> pid) list"
  netQ :: "(pid \<times> request) list"
  promises :: "pid \<rightharpoonup> pstate"
  next_pid :: pid
  all_count :: "pid \<rightharpoonup> nat"
  micro :: "(reaction \<times> outcome) list"
  trace :: "obs list"
  listeners :: nat
  appState :: AppStateStatus
  sessionStartTime :: instant

text \<open>
  Promises are numbered in the order they are made; a number that has not been given
  out yet names no promise.
\<close>

definition lookup :: "machine \<Rightarrow> pid \<Rightarrow> pstate option" where
  "lookup m p = (if p < next_pid m then promises m p else None)"

definition new_promise :: "machine \<Rightarrow> pid \<times> machine" where
  "new_promise m =
     (next_pid m,
      m\<lparr>promises := (promises m)(next_pid m \<mapsto> Pending []), next_pid := Suc (next_pid m)\<rparr>)"

definition enqueue :: "reaction list \<Rightarrow> outcome \<Rightarrow> machine \<Rightarrow> machine" where
  "enqueue rs oc m = m\<lparr>micro := micro m @ map (\<lambda>r. (r, oc)) rs\<rparr>"

definition observe :: "obs \<Rightarrow> machine \<Rightarrow> machine" where
  "observe e m = m\<lparr>trace := trace m @ [e]\<rparr>"

text \<open>
  Settling a pending promise queues its reactions as microtasks; a promise that is
  already settled stays as it is. A rejection nobody listens to is reported.
\<close>

definition settle :: "pid \<Rightarrow> outcome \<Rightarrow> machine \<Rightarrow> machine" where
  "settle p oc m =
     (case lookup m p of
        Some (Pending rs) \<Rightarrow>
          (let m1 = enqueue rs oc (m\<lparr>promises := (promises m)(p \<mapsto> Settled oc)\<rparr>)
           in case oc of
                Rejected e \<Rightarrow> if rs = [] then observe (Unhandled_rejection e) m1 else m1
              | Fulfilled v \<Rightarrow> m1)
      | _ \<Rightarrow> m)"

definition subscribe :: "pid \<Rightarrow> reaction \<Rightarrow> machine \<Rightarrow> machine" where
  "subscribe p r m =
     (case lookup m p of
        Some (Pending rs) \<Rightarrow> m\<lparr>promises := (promises m)(p \<mapsto> Pending (rs @ [r]))\<rparr>
      | Some (Settled oc) \<Rightarrow> enqueue [r] oc m
      | None \<Rightarrow> m)"

definition then_p :: "pid \<Rightarrow> callback \<Rightarrow> machine \<Rightarrow> pid \<times> machine" where
  "then_p p cb m = (case new_promise m of (d, m1) \<Rightarrow> (d, subscribe p (Then cb d) m1))"

definition catch_p :: "pid \<Rightarrow> callback \<Rightarrow> machine \<Rightarrow> pid \<times> machine" where
  "catch_p p cb m = (case new_promise m of (d, m1) \<Rightarrow> (d, subscribe p (Catch cb d) m1))"

definition await_p :: "pid \<Rightarrow> kont \<Rightarrow> machine \<Rightarrow> pid \<times> machine" where
  "await_p p k m = (case new_promise m of (d, m1) \<Rightarrow> (d, subscribe p (Await k d) m1))"

text \<open>\<open>Promise.all\<close>: fulfilled when every element is, rejected with the first rejection.\<close>

definition Promise_all :: "pid list \<Rightarrow> machine \<Rightarrow> pid \<times> machine" where
  "Promise_all ps m =
     (case new_promise m of
        (a, m1) \<Rightarrow>
          (if ps = [] then (a, settle a (Fulfilled Undefined) m1)
           else (a, fold (\<lambda>p. subscribe p (All_element a))
                      ps (m1\<lparr>all_count := (all_count m1)(a \<mapsto> length ps)\<rparr>))))"

text \<open>
  The store collaborator: a call queues the operation and returns a promise; the native
  side performs the queued operations one at a time, in the order of the calls.
\<close>

definition AsyncStorage :: "storage_op \<Rightarrow> machine \<Rightarrow> pid \<times> machine" where
  "AsyncStorage op m =
     (case new_promise m of
        (p, m1) \<Rightarrow> (p, observe (Storage_call op) (m1\<lparr>storeQ := storeQ m1 @ [(op, p)]\<rparr>)))"

definition perform :: "storage_op \<Rightarrow> (string \<rightharpoonup> int) \<Rightarrow> (string \<rightharpoonup> int) \<times> jsval" where
  "perform op s =
     (case op of
        GetItem k \<Rightarrow> (s, case s k of None \<Rightarrow> Null | Some v \<Rightarrow> DateText v)
      | SetItem k v \<Rightarrow> (s(k \<mapsto> v), Null)
      | RemoveItem k \<Rightarrow> (s(k := None), Null))"

text \<open>The transport collaborator: \<open>fetch\<close> starts a request and returns its promise.\<close>

definition fetch :: "request \<Rightarrow> machine \<Rightarrow> pid \<times> machine" where
  "fetch req m =
     (case new_promise m of
        (p, m1) \<Rightarrow> (p, observe (Fetch_start p req) (m1\<lparr>netQ := netQ m1 @ [(p, req)]\<rparr>)))"

section \<open>The tracker\<close>

datatype error = MalformedToken

text \<open>
  The constructor. \<open>Platform.OS\<close>, \<open>Platform.Version\<close> (already as a string) and
  \<open>AppState.currentState\<close> are read from the host; the two mutable fields of the
  instance, \<open>appState\<close> and \<open>sessionStartTime\<close>, live in the machine.
\<close>

definition storage_keys :: "string \<Rightarrow> AsyncStorageKeys" where
  "storage_keys appId =
     \<lparr>firstOpenTime = ''lumin_'' @ appId @ ''_first_open_time'',
      endOfLastSession = ''lumin_'' @ appId @ ''_end_of_last_session'',
      lastDauTracked = ''lumin_'' @ appId @ ''_last_dau_tracked'',
      lastWauTracked = ''lumin_'' @ appId @ ''_last_wau_tracked'',
      lastMauTracked = ''lumin_'' @ appId @ ''_last_mau_tracked'',
      lastYauTracked = ''lumin_'' @ appId @ ''_last_yau_tracked''\<rparr>"

definition new_Lumin ::
  "string \<Rightarrow> string \<Rightarrow> AppStateStatus \<Rightarrow> string \<Rightarrow> LuminConfig \<Rightarrow> machine \<Rightarrow> error + lumin \<times> machine"
where
  "new_Lumin os version currentState tok cfg m =
     (let parts = split (CHR '':'') (trim tok);
          appId = element parts 0;
          appToken = element parts 1
      in if falsy_string appId \<or> falsy_string appToken then Inl MalformedToken
         else Inr (\<lparr>id_L = the appId,
                    token = the appToken,
                    config = spread defaultConfig cfg,
                    info = \<lparr>platform = os, platformVersion = version, luminVersion = ''0.4.2''\<rparr>,
                    asyncStorageKeys = storage_keys (the appId)\<rparr>,
                   m\<lparr>appState := currentState, sessionStartTime := clock m\<rparr>))"

definition template :: "string option \<Rightarrow> string" where
  "template s = (case s of None \<Rightarrow> ''undefined'' | Some t \<Rightarrow> t)"

text \<open>
  \<open>track\<close> is an async function with no \<open>await\<close> and no \<open>return\<close>: it starts the
  request, hangs the two handlers on the request's promise, and its own promise is
  fulfilled when the body ends.
\<close>

definition track :: "lumin \<Rightarrow> string \<Rightarrow> data \<Rightarrow> machine \<Rightarrow> pid \<times> machine" where
  "track L event dat m =
     (case new_promise m of
        (result, m0) \<Rightarrow>
     (case fetch \<lparr>endpoint = template (url (config L)) @ ''/api/events/create'',
                  event_type = event,
                  event_data = merge [(''$info'', InfoObject (info L))] dat,
                  event_environment = environment (config L),
                  appToken = token L\<rparr> m0 of
        (f, m1) \<Rightarrow>
     (case then_p f CB_response m1 of
        (t, m2) \<Rightarrow>
     (case catch_p t CB_error m2 of
        (c, m3) \<Rightarrow> (result, settle result (Fulfilled Undefined) m3)))))"

definition trackCustomEvent :: "lumin \<Rightarrow> string \<Rightarrow> data \<Rightarrow> machine \<Rightarrow> pid \<times> machine" where
  "trackCustomEvent L event dat m =
     (case new_promise m of
        (result, m0) \<Rightarrow>
     (case track L event (merge [(''$custom'', Boolean True)] dat) m0 of
        (t, m1) \<Rightarrow> (result, settle result (Fulfilled Undefined) m1)))"

definition flag :: "bool option \<Rightarrow> bool" where
  "flag b = (b = Some True)"

definition startSession :: "lumin \<Rightarrow> machine \<Rightarrow> pid \<times> machine" where
  "startSession L m =
     (case AsyncStorage (GetItem (endOfLastSession (asyncStorageKeys L)))
             (m\<lparr>sessionStartTime := clock m\<rparr>) of
        (g, m1) \<Rightarrow> await_p g K_startSession m1)"

definition resume_startSession :: "lumin \<Rightarrow> jsval \<Rightarrow> machine \<Rightarrow> outcome \<times> machine" where
  "resume_startSession L lastSessionEndTime m =
     (let diff = (if truthy lastSessionEndTime
                  then number (differenceInSeconds (Some (clock m)) (new_Date lastSessionEndTime))
                  else Null)
      in case track L ''SESSION_START'' [(''timeSinceLastSession'', diff)] m of
           (t, m1) \<Rightarrow> (Fulfilled Undefined, m1))"

definition endSession :: "lumin \<Rightarrow> machine \<Rightarrow> machine" where
  "endSession L m =
     (let diff = number (differenceInSeconds (Some (clock m)) (Some (sessionStartTime m)))
      in case track L ''SESSION_END'' [(''duration'', diff)] m of
           (t, m1) \<Rightarrow>
             snd (AsyncStorage (SetItem (endOfLastSession (asyncStorageKeys L)) (toString (clock m1))) m1))"

definition setFirstOpenTime :: "lumin \<Rightarrow> machine \<Rightarrow> machine" where
  "setFirstOpenTime L m =
     (case AsyncStorage (GetItem (firstOpenTime (asyncStorageKeys L))) m of
        (g, m1) \<Rightarrow> snd (then_p g CB_setFirstOpenTime m1))"

definition on_firstOpenTime :: "lumin \<Rightarrow> jsval \<Rightarrow> machine \<Rightarrow> outcome \<times> machine" where
  "on_firstOpenTime L firstOpen m =
     (if \<not> truthy firstOpen
      then (case AsyncStorage (SetItem (firstOpenTime (asyncStorageKeys L)) (toString (clock m))) m of
              (s, m1) \<Rightarrow>
           (case track L ''FIRST_OPEN'' [] m1 of
              (t, m2) \<Rightarrow> (Fulfilled Undefined, m2)))
      else (Fulfilled Undefined, m))"

text \<open>
  The four cadence methods of the source differ in four places only: the key, the
  configured interval, the calendar boundary and the event name.
\<close>

definition marker_key :: "lumin \<Rightarrow> period \<Rightarrow> string" where
  "marker_key L p =
     (case p of
        Daily \<Rightarrow> lastDauTracked (asyncStorageKeys L)
      | Weekly \<Rightarrow> lastWauTracked (asyncStorageKeys L)
      | Monthly \<Rightarrow> lastMauTracked (asyncStorageKeys L)
      | Yearly \<Rightarrow> lastYauTracked (asyncStorageKeys L))"

definition interval :: "lumin \<Rightarrow> period \<Rightarrow> int option" where
  "interval L p =
     (case trackingIntervals (config L) of
        None \<Rightarrow> None
      | Some ti \<Rightarrow>
          (case p of
             Daily \<Rightarrow> dailyActiveUser ti
           | Weekly \<Rightarrow> weeklyActiveUser ti
           | Monthly \<Rightarrow> monthlyActiveUser ti
           | Yearly \<Rightarrow> yearlyActiveUser ti))"

definition boundary :: "period \<Rightarrow> int \<Rightarrow> instant \<Rightarrow> instant" where
  "boundary p z now =
     (case p of
        Daily \<Rightarrow> startOfDay z now
      | Weekly \<Rightarrow> startOfWeek z now
      | Monthly \<Rightarrow> startOfMonth z now
      | Yearly \<Rightarrow> startOfYear z now)"

definition event_name :: "period \<Rightarrow> string" where
  "event_name p =
     (case p of
        Daily \<Rightarrow> ''DAILY_ACTIVE_USER''
      | Weekly \<Rightarrow> ''WEEKLY_ACTIVE_USER''
      | Monthly \<Rightarrow> ''MONTHLY_ACTIVE_USER''
      | Yearly \<Rightarrow> ''YEARLY_ACTIVE_USER'')"

definition trackPeriodActiveUser :: "lumin \<Rightarrow> period \<Rightarrow> machine \<Rightarrow> pid \<times> machine" where
  "trackPeriodActiveUser L p m =
     (case AsyncStorage (GetItem (marker_key L p)) m of
        (g, m1) \<Rightarrow> await_p g (K_trackActiveUser p) m1)"

definition trackDailyActiveUser :: "lumin \<Rightarrow> machine \<Rightarrow> pid \<times> machine" where
  "trackDailyActiveUser L = trackPeriodActiveUser L Daily"

definition trackWeeklyActiveUser :: "lumin \<Rightarrow> machine \<Rightarrow> pid \<times> machine" where
  "trackWeeklyActiveUser L = trackPeriodActiveUser L Weekly"

definition trackMonthlyActiveUser :: "lumin \<Rightarrow> machine \<Rightarrow> pid \<times> machine" where
  "trackMonthlyActiveUser L = trackPeriodActiveUser L Monthly"

definition trackYearlyActiveUser :: "lumin \<Rightarrow> machine \<Rightarrow> pid \<times> machine" where
  "trackYearlyActiveUser L = trackPeriodActiveUser L Yearly"

text \<open>
  The condition of the source: the interval is used when it is truthy (set and not 0),
  the calendar boundary otherwise.
\<close>

definition timeCondition :: "lumin \<Rightarrow> period \<Rightarrow> int \<Rightarrow> instant \<Rightarrow> jsval \<Rightarrow> bool" where
  "timeCondition L p z now lastTracked =
     (if truthy (number (interval L p)) \<and> interval L p \<noteq> None
      then greater (differenceInSeconds (Some now) (new_Date lastTracked)) (the (interval L p))
      else isBefore (new_Date lastTracked) (Some (boundary p z now)))"

definition track_then_persist :: "lumin \<Rightarrow> period \<Rightarrow> machine \<Rightarrow> machine" where
  "track_then_persist L p m =
     (case track L (event_name p) [] m of
        (t, m1) \<Rightarrow> snd (then_p t (CB_persist p) m1))"

definition resume_trackActiveUser :: "lumin \<Rightarrow> period \<Rightarrow> jsval \<Rightarrow> machine \<Rightarrow> outcome \<times> machine" where
  "resume_trackActiveUser L p lastTracked m =
     (if truthy lastTracked
      then (if timeCondition L p (tz m) (clock m) lastTracked
            then (Fulfilled Undefined, track_then_persist L p m)
            else (Fulfilled Undefined, m))
      else (Fulfilled Undefined, track_then_persist L p m))"

definition persist :: "lumin \<Rightarrow> period \<Rightarrow> machine \<Rightarrow> outcome \<times> machine" where
  "persist L p m =
     (case AsyncStorage (SetItem (marker_key L p) (toString (clock m))) m of
        (s, m1) \<Rightarrow> (Fulfilled Undefined, m1))"

definition trackActiveUser :: "lumin \<Rightarrow> machine \<Rightarrow> machine" where
  "trackActiveUser L m =
     snd (trackYearlyActiveUser L
       (snd (trackMonthlyActiveUser L
         (snd (trackWeeklyActiveUser L
           (snd (trackDailyActiveUser L m)))))))"

definition clearLuminItemsFromAsyncStorage :: "lumin \<Rightarrow> machine \<Rightarrow> pid \<times> machine" where
  "clearLuminItemsFromAsyncStorage L m =
     (case AsyncStorage (RemoveItem (firstOpenTime (asyncStorageKeys L))) m of (r1, m1) \<Rightarrow>
     (case AsyncStorage (RemoveItem (endOfLastSession (asyncStorageKeys L))) m1 of (r2, m2) \<Rightarrow>
     (case AsyncStorage (RemoveItem (lastDauTracked (asyncStorageKeys L))) m2 of (r3, m3) \<Rightarrow>
     (case AsyncStorage (RemoveItem (lastWauTracked (asyncStorageKeys L))) m3 of (r4, m4) \<Rightarrow>
     (case AsyncStorage (RemoveItem (lastMauTracked (asyncStorageKeys L))) m4 of (r5, m5) \<Rightarrow>
     (case AsyncStorage (RemoveItem (lastYauTracked (asyncStorageKeys L))) m5 of (r6, m6) \<Rightarrow>
     (case Promise_all [r1, r2, r3, r4, r5, r6] m6 of (a, m7) \<Rightarrow>
        await_p a K_clear m7)))))))"

text \<open>The handlers of \<open>track\<close>.\<close>

definition on_response :: "lumin \<Rightarrow> jsval \<Rightarrow> machine \<Rightarrow> outcome \<times> machine" where
  "on_response L res m =
     (case new_promise m of
        (j, m1) \<Rightarrow>
     (case then_p j CB_json m1 of
        (t, m2) \<Rightarrow>
          (Fulfilled Undefined,
           settle j (if res = Response True then Fulfilled Json
                     else Rejected (ErrorValue ''SyntaxError'')) m2)))"

definition on_json :: "lumin \<Rightarrow> jsval \<Rightarrow> machine \<Rightarrow> outcome \<times> machine" where
  "on_json L json m =
     (Fulfilled Undefined,
      if flag (logResponse (config L)) then observe (Console_log json) m else m)"

definition on_error :: "lumin \<Rightarrow> jsval \<Rightarrow> machine \<Rightarrow> outcome \<times> machine" where
  "on_error L err m =
     (Rejected err, if flag (logError (config L)) then observe (Console_log err) m else m)"

text \<open>The listener \<open>init\<close> registers with \<open>AppState\<close>, and \<open>init\<close> itself.\<close>

definition in_background :: "AppStateStatus \<Rightarrow> bool" where
  "in_background s = (s = Inactive \<or> s = Background)"

definition listener :: "lumin \<Rightarrow> AppStateStatus \<Rightarrow> machine \<Rightarrow> machine" where
  "listener L nextAppState m =
     (let m1 = (if in_background (appState m) \<and> nextAppState = Active
                then snd (startSession L
                       (if flag (automaticallyTrackActiveUsers (config L))
                        then trackActiveUser L m else m))
                else m);
          m2 = (if appState m1 = Active \<and> in_background nextAppState
                then endSession L m1 else m1)
      in m2\<lparr>appState := nextAppState\<rparr>)"

definition init :: "lumin \<Rightarrow> machine \<Rightarrow> machine" where
  "init L m =
     (let m1 = setFirstOpenTime L (m\<lparr>listeners := Suc (listeners m)\<rparr>);
          m2 = (if flag (automaticallyTrackActiveUsers (config L))
                then trackActiveUser L m1 else m1)
      in snd (startSession L m2))"

section \<open>The event loop\<close>

definition run_callback :: "lumin \<Rightarrow> callback \<Rightarrow> jsval \<Rightarrow> machine \<Rightarrow> outcome \<times> machine" where
  "run_callback L cb v m =
     (case cb of
        CB_setFirstOpenTime \<Rightarrow> on_firstOpenTime L v m
      | CB_persist p \<Rightarrow> persist L p m
      | CB_response \<Rightarrow> on_response L v m
      | CB_json \<Rightarrow> on_json L v m
      | CB_error \<Rightarrow> on_error L v m)"

definition run_kont :: "lumin \<Rightarrow> kont \<Rightarrow> jsval \<Rightarrow> machine \<Rightarrow> outcome \<times> machine" where
  "run_kont L k v m =
     (case k of
        K_startSession \<Rightarrow> resume_startSession L v m
      | K_trackActiveUser p \<Rightarrow> resume_trackActiveUser L p v m
      | K_clear \<Rightarrow> (Fulfilled Undefined, m))"

definition all_element :: "pid \<Rightarrow> outcome \<Rightarrow> machine \<Rightarrow> machine" where
  "all_element a oc m =
     (case oc of
        Rejected e \<Rightarrow> settle a oc m
      | Fulfilled v \<Rightarrow>
          (case all_count m a of
             None \<Rightarrow> m
           | Some n \<Rightarrow>
               (let m1 = m\<lparr>all_count := (all_count m)(a \<mapsto> n - 1)\<rparr>
                in if n = 1 then settle a (Fulfilled Undefined) m1 else m1)))"

definition react :: "lumin \<Rightarrow> reaction \<Rightarrow> outcome \<Rightarrow> machine \<Rightarrow> machine" where
  "react L r oc m =
     (case r of
        Then cb d \<Rightarrow>
          (case oc of
             Fulfilled v \<Rightarrow> (case run_callback L cb v m of (oc', m') \<Rightarrow> settle d oc' m')
           | Rejected e \<Rightarrow> settle d oc m)
      | Catch cb d \<Rightarrow>
          (case oc of
             Fulfilled v \<Rightarrow> settle d oc m
           | Rejected e \<Rightarrow> (case run_callback L cb e m of (oc', m') \<Rightarrow> settle d oc' m'))
      | Await k d \<Rightarrow>
          (case oc of
             Fulfilled v \<Rightarrow> (case run_kont L k v m of (oc', m') \<Rightarrow> settle d oc' m')
           | Rejected e \<Rightarrow> settle d oc m)
      | All_element a \<Rightarrow> all_element a oc m)"

text \<open>Microtasks run until the queue is empty, before the next task.\<close>

partial_function (option) drain :: "lumin \<Rightarrow> machine \<Rightarrow> machine option" where
  "drain L m =
     (case micro m of
        [] \<Rightarrow> Some m
      | (r, oc) # rest \<Rightarrow> drain L (react L r oc (m\<lparr>micro := rest\<rparr>)))"

declare drain.simps [code]

text \<open>
  What the host does between two tasks of the tracker: time passes, the store performs
  the oldest queued operation (or fails it), a request comes back (with a response whose
  body is JSON or not, or with a failure), the application changes state.
\<close>

datatype reply = Ok bool | Failed

datatype ext = Tick nat | Storage bool | Network pid reply | App_state AppStateStatus

definition storage_task :: "bool \<Rightarrow> machine \<Rightarrow> machine" where
  "storage_task ok m =
     (case storeQ m of
        [] \<Rightarrow> m
      | (op, p) # rest \<Rightarrow>
          (if ok
           then (case perform op (store m) of
                   (s, v) \<Rightarrow>
                     settle p (Fulfilled v)
                       (observe (Storage_done op True) (m\<lparr>storeQ := rest, store := s\<rparr>)))
           else settle p (Rejected (ErrorValue ''storage''))
                  (observe (Storage_done op False) (m\<lparr>storeQ := rest\<rparr>))))"

definition network_task :: "pid \<Rightarrow> reply \<Rightarrow> machine \<Rightarrow> machine" where
  "network_task p r m =
     (case map_of (netQ m) p of
        None \<Rightarrow> m
      | Some req \<Rightarrow>
          (let m1 = m\<lparr>netQ := filter (\<lambda>(q, _). q \<noteq> p) (netQ m)\<rparr>
           in case r of
                Ok json \<Rightarrow> settle p (Fulfilled (Response json)) (observe (Fetch_done p True) m1)
              | Failed \<Rightarrow>
                  settle p (Rejected (ErrorValue ''network'')) (observe (Fetch_done p False) m1)))"

definition task :: "lumin \<Rightarrow> ext \<Rightarrow> machine \<Rightarrow> machine option" where
  "task L e m =
     (case e of
        Tick d \<Rightarrow> Some (m\<lparr>clock := clock m + int d\<rparr>)
      | Storage ok \<Rightarrow> drain L (storage_task ok m)
      | Network p r \<Rightarrow> drain L (network_task p r m)
      | App_state s \<Rightarrow> drain L ((listener L s ^^ listeners m) m))"

fun run :: "lumin \<Rightarrow> ext list \<Rightarrow> machine \<Rightarrow> machine option" where
  "run L [] m = Some m"
| "run L (e # es) m = (case task L e m of None \<Rightarrow> None | Some m' \<Rightarrow> run L es m')"

text \<open>A call from the application is a task of its own.\<close>

definition call :: "lumin \<Rightarrow> (machine \<Rightarrow> machine) \<Rightarrow> machine \<Rightarrow> machine option" where
  "call L f m = drain L (f m)"

text \<open>A process that has just started on a device with the given store.\<close>

definition boot :: "instant \<Rightarrow> int \<Rightarrow> (string \<rightharpoonup> int) \<Rightarrow> machine" where
  "boot now z s =
     \<lparr>clock = now, tz = z, store = s, storeQ = [], netQ = [], promises = Map.empty,
      next_pid = 0, all_count = Map.empty, micro = [], trace = [], listeners = 0,
      appState = Active, sessionStartTime = now\<rparr>"

text \<open>The requests a machine has started so far, and the event types they carry.\<close>

definition requests :: "machine \<Rightarrow> request list" where
  "requests m = concat (map (\<lambda>e. case e of Fetch_start p r \<Rightarrow> [r] | _ \<Rightarrow> []) (trace m))"

definition sent :: "machine \<Rightarrow> string list" where
  "sent m = map event_type (requests m)"

text \<open>
  Between two tasks the microtask queue is empty; a machine is \<open>quiescent\<close> when the
  store has nothing left to do either.
\<close>

definition quiescent :: "machine \<Rightarrow> bool" where
  "quiescent m = (storeQ m = [] \<and> micro m = [])"

text \<open>The application calls a method, then the host goes through the tasks \<open>es\<close>.\<close>

definition invoke :: "lumin \<Rightarrow> (machine \<Rightarrow> machine) \<Rightarrow> ext list \<Rightarrow> machine \<Rightarrow> machine option" where
  "invoke L f es m = (case call L f m of None \<Rightarrow> None | Some m1 \<Rightarrow> run L es m1)"


definition the_request :: "lumin \<Rightarrow> string \<Rightarrow> data \<Rightarrow> request" where
  "the_request L event dat =
     \<lparr>endpoint = template (url (config L)) @ ''/api/events/create'',
      event_type = event,
      event_data = merge [(''$info'', InfoObject (info L))] dat,
      event_environment = environment (config L),
      appToken = token L\<rparr>"


section \<open>Concrete installations and the wording of the specification\<close>

text \<open>The configuration argument left out: \<open>{}\<close>.\<close>

definition no_overrides :: LuminConfig where
  "no_overrides =
     \<lparr>environment = None, automaticallyTrackActiveUsers = None, trackingIntervals = None,
      url = None, logResponse = None, logError = None\<rparr>"

definition abc :: lumin where
  "abc =
     \<lparr>id_L = ''abc'', token = ''def'', config = defaultConfig,
      info = \<lparr>platform = ''ios'', platformVersion = ''17.0'', luminVersion = ''0.4.2''\<rparr>,
      asyncStorageKeys = storage_keys ''abc''\<rparr>"

text \<open>The same installation with \<open>trackingIntervals: { dailyActiveUser: i }\<close>.\<close>

definition with_daily :: "int \<Rightarrow> lumin" where
  "with_daily i =
     abc\<lparr>config := defaultConfig\<lparr>trackingIntervals :=
       Some \<lparr>dailyActiveUser = Some i, weeklyActiveUser = None,
             monthlyActiveUser = None, yearlyActiveUser = None\<rparr>\<rparr>\<rparr>"

text \<open>
  The week of the specification's wording, which starts on a Monday: \<open>startOfWeek\<close>
  with \<open>weekStartsOn = 1\<close>.
\<close>

definition startOfWeek_Monday :: "int \<Rightarrow> instant \<Rightarrow> instant" where
  "startOfWeek_Monday z t =
     (let weekStartsOn = 1;
          day = getDay (local_day z t);
          diff = (if day < weekStartsOn then 7 else 0) + day - weekStartsOn
      in day_start z (local_day z t - diff))"




text \<open>
  The first-open check on its own, up to the end of its callback: the method is called,
  \<open>d\<close> milliseconds later the store answers the read and the callback runs. The cadence
  evaluation up to the same point.
\<close>

definition first_open_check :: "lumin \<Rightarrow> nat \<Rightarrow> machine \<Rightarrow> machine option" where
  "first_open_check L d m = invoke L (setFirstOpenTime L) [Tick d, Storage True] m"

definition cadence_check :: "lumin \<Rightarrow> period \<Rightarrow> nat \<Rightarrow> machine \<Rightarrow> machine option" where
  "cadence_check L p d m =
     invoke L (\<lambda>m. snd (trackPeriodActiveUser L p m)) [Tick d, Storage True] m"

text \<open>
  The process stops inside the callback of the first-open check, after its first
  statement (the write is on its way to the store) and before its second (the send);
  the store then performs the write. What a later process finds is the store.
\<close>

definition stopped_after_write :: "lumin \<Rightarrow> machine \<Rightarrow> machine" where
  "stopped_after_write L m =
     storage_task True
       (snd (AsyncStorage (SetItem (firstOpenTime (asyncStorageKeys L)) (toString (clock m))) m))"

text \<open>
  A reset: the method is called and the host goes through the tasks \<open>es\<close>. All four
  cadence evaluations: \<open>trackActiveUser\<close> is called, \<open>d\<close> milliseconds later the
  store answers the four reads, then performs the writes that were asked for.
\<close>

definition reset :: "lumin \<Rightarrow> ext list \<Rightarrow> machine \<Rightarrow> machine option" where
  "reset L es m = invoke L (\<lambda>m. snd (clearLuminItemsFromAsyncStorage L m)) es m"

definition evaluate_all :: "lumin \<Rightarrow> nat \<Rightarrow> machine \<Rightarrow> machine option" where
  "evaluate_all L d m =
     invoke L (trackActiveUser L)
       [Tick d, Storage True, Storage True, Storage True, Storage True,
        Storage True, Storage True, Storage True, Storage True] m"

definition reset_then_evaluate :: "lumin \<Rightarrow> nat \<Rightarrow> machine \<Rightarrow> machine option" where
  "reset_then_evaluate L d m =
     (case reset L [Storage True, Storage True, Storage True,
                    Storage True, Storage True, Storage True] m of
        None \<Rightarrow> None
      | Some m1 \<Rightarrow> evaluate_all L d m1)"

text \<open>A reset in which the store fails the third delete, that of the daily marker.\<close>

definition reset_third_fails :: "lumin \<Rightarrow> nat \<Rightarrow> machine \<Rightarrow> machine option" where
  "reset_third_fails L d m =
     (case reset L [Storage True, Storage True, Storage False,
                    Storage True, Storage True, Storage True] m of
        None \<Rightarrow> None
      | Some m1 \<Rightarrow> evaluate_all L d m1)"

definition all_four :: "string list" where
  "all_four =
     [''DAILY_ACTIVE_USER'', ''WEEKLY_ACTIVE_USER'', ''MONTHLY_ACTIVE_USER'',
      ''YEARLY_ACTIVE_USER'']"

text \<open>
  The two halves of the specification's wording, which cuts the token at its first
  colon only.
\<close>

definition first_half :: "string \<Rightarrow> string" where
  "first_half s = takeWhile (\<lambda>c. c \<noteq> CHR '':'') s"

definition second_half :: "string \<Rightarrow> string" where
  "second_half s = tl (dropWhile (\<lambda>c. c \<noteq> CHR '':'') s)"

section \<open>Symbolic execution of the runtime\<close>

lemma drain_Nil: "micro m = [] \<Longrightarrow> drain L m = Some m"
  by (subst drain.simps) simp

lemma drain_Cons:
  "micro m = (r, oc) # rest \<Longrightarrow> drain L m = drain L (react L r oc (m\<lparr>micro := rest\<rparr>))"
  by (subst drain.simps) simp

lemma fetch_eq:
  "fetch req m =
     (next_pid m,
      m\<lparr>promises := (promises m)(next_pid m \<mapsto> Pending []), next_pid := Suc (next_pid m),
        netQ := netQ m @ [(next_pid m, req)],
        trace := trace m @ [Fetch_start (next_pid m) req]\<rparr>)"
  by (simp add: fetch_def new_promise_def observe_def)

lemma AsyncStorage_eq:
  "AsyncStorage op m =
     (next_pid m,
      m\<lparr>promises := (promises m)(next_pid m \<mapsto> Pending []), next_pid := Suc (next_pid m),
        storeQ := storeQ m @ [(op, next_pid m)],
        trace := trace m @ [Storage_call op]\<rparr>)"
  by (simp add: AsyncStorage_def new_promise_def observe_def)

lemma subscribe_pending:
  "promises m p = Some (Pending rs) \<Longrightarrow> p < next_pid m \<Longrightarrow>
   subscribe p r m = m\<lparr>promises := (promises m)(p \<mapsto> Pending (rs @ [r]))\<rparr>"
  by (simp add: subscribe_def lookup_def)

lemma subscribe_settled:
  "promises m p = Some (Settled oc) \<Longrightarrow> p < next_pid m \<Longrightarrow>
   subscribe p r m = m\<lparr>micro := micro m @ [(r, oc)]\<rparr>"
  by (simp add: subscribe_def lookup_def enqueue_def)

lemma settle_fulfil:
  "promises m p = Some (Pending rs) \<Longrightarrow> p < next_pid m \<Longrightarrow>
   settle p (Fulfilled v) m =
     m\<lparr>promises := (promises m)(p \<mapsto> Settled (Fulfilled v)),
       micro := micro m @ map (\<lambda>r. (r, Fulfilled v)) rs\<rparr>"
  by (simp add: settle_def lookup_def enqueue_def)

lemma settle_reject:
  "promises m p = Some (Pending (r # rs)) \<Longrightarrow> p < next_pid m \<Longrightarrow>
   settle p (Rejected e) m =
     m\<lparr>promises := (promises m)(p \<mapsto> Settled (Rejected e)),
       micro := micro m @ map (\<lambda>r. (r, Rejected e)) (r # rs)\<rparr>"
  by (simp add: settle_def lookup_def enqueue_def)

lemma settle_unhandled:
  "promises m p = Some (Pending []) \<Longrightarrow> p < next_pid m \<Longrightarrow>
   settle p (Rejected e) m =
     m\<lparr>promises := (promises m)(p \<mapsto> Settled (Rejected e)),
       trace := trace m @ [Unhandled_rejection e]\<rparr>"
  by (simp add: settle_def lookup_def enqueue_def observe_def)

lemmas steps = fetch_eq AsyncStorage_eq new_promise_def then_p_def catch_p_def await_p_def
  subscribe_pending subscribe_settled settle_fulfil settle_reject settle_unhandled

lemma track_eq:
  "track L ev dat m =
     (next_pid m,
      m\<lparr>promises := (promises m)
           (next_pid m \<mapsto> Settled (Fulfilled Undefined),
            Suc (next_pid m) \<mapsto> Pending [Then CB_response (Suc (Suc (next_pid m)))],
            Suc (Suc (next_pid m)) \<mapsto> Pending [Catch CB_error (Suc (Suc (Suc (next_pid m))))],
            Suc (Suc (Suc (next_pid m))) \<mapsto> Pending []),
         next_pid := Suc (Suc (Suc (Suc (next_pid m)))),
         netQ := netQ m @ [(Suc (next_pid m), the_request L ev dat)],
         trace := trace m @ [Fetch_start (Suc (next_pid m)) (the_request L ev dat)]\<rparr>)"
  by (simp add: track_def steps the_request_def fun_upd_twist)

lemma the_request_simps:
  "event_type (the_request L ev dat) = ev"
  "event_data (the_request L ev dat) = merge [(''$info'', InfoObject (info L))] dat"
  by (simp_all add: the_request_def)

lemmas loop = the_request_simps drain_Nil drain_Cons invoke_def call_def task_def
  storage_task_def network_task_def react_def run_kont_def run_callback_def observe_def
  perform_def

lemmas views = sent_def requests_def quiescent_def

section \<open>The cadence evaluator\<close>



lemma timeCondition_calendar:
  "interval L p = None \<Longrightarrow>
   timeCondition L p z now (DateText t) = (t * 1000 < boundary p z now)"
  by (simp add: timeCondition_def truthy_def number_def isBefore_def new_Date_def)



lemmas calendar = boundary_def startOfDay_def startOfWeek_def startOfWeek_Monday_def
  local_day_def day_start_def getDay_def ms_per_day_def

lemmas installation = abc_def with_daily_def storage_keys_def marker_key_def interval_def
  event_name_def defaultConfig_def




subsection \<open>The calendar boundary\<close>








section \<open>Sessions\<close>







section \<open>The first-open check\<close>

lemma first_open_eq:
  assumes "quiescent m"
  shows "\<exists>m'. first_open_check L d m = Some m' \<and>
     trace m' = trace m @
       [Storage_call (GetItem (firstOpenTime (asyncStorageKeys L))),
        Storage_done (GetItem (firstOpenTime (asyncStorageKeys L))) True] @
       (if store m (firstOpenTime (asyncStorageKeys L)) = None
        then [Storage_call (SetItem (firstOpenTime (asyncStorageKeys L))
                (toString (clock m + int d))),
              Fetch_start (next_pid m + 4) (the_request L ''FIRST_OPEN'' [])]
        else []) \<and>
     store m' = store m \<and> micro m' = [] \<and>
     map fst (storeQ m') =
       (if store m (firstOpenTime (asyncStorageKeys L)) = None
        then [SetItem (firstOpenTime (asyncStorageKeys L)) (toString (clock m + int d))]
        else [])"
  using assms
  by (cases "store m (firstOpenTime (asyncStorageKeys L))")
     (simp_all add: views first_open_check_def setFirstOpenTime_def steps loop truthy_def
        on_firstOpenTime_def track_eq)

lemma cadence_check_absent:
  assumes "quiescent m" and "store m (marker_key L p) = None"
  shows "\<exists>m'. cadence_check L p d m = Some m' \<and>
     trace m' = trace m @
       [Storage_call (GetItem (marker_key L p)),
        Storage_done (GetItem (marker_key L p)) True,
        Fetch_start (next_pid m + 3) (the_request L (event_name p) []),
        Storage_call (SetItem (marker_key L p) (toString (clock m + int d)))]"
  using assms
  by (simp add: views cadence_check_def trackPeriodActiveUser_def steps loop truthy_def
        resume_trackActiveUser_def track_then_persist_def track_eq persist_def)

lemma on_firstOpenTime_steps:
  "on_firstOpenTime L Null m =
     (Fulfilled Undefined,
      snd (track L ''FIRST_OPEN'' []
        (snd (AsyncStorage (SetItem (firstOpenTime (asyncStorageKeys L)) (toString (clock m))) m))))"
  by (simp add: on_firstOpenTime_def truthy_def split_def)

lemma stopped_after_write_store:
  "storeQ m = [] \<Longrightarrow>
   store (stopped_after_write L m) =
     (store m)(firstOpenTime (asyncStorageKeys L) \<mapsto> toString (clock m))"
  by (simp add: stopped_after_write_def AsyncStorage_eq storage_task_def perform_def
        observe_def settle_fulfil)

lemma quiescent_boot: "quiescent (boot now z s)"
  by (simp add: quiescent_def boot_def)

text \<open>
  Claim C10. With no first-open marker in the store, the callback of the first-open
  check asks the store to write "now" under the key and only then starts the
  \<open>FIRST_OPEN\<close> request; a cadence evaluation does it the other way round, the request
  first and the write of the marker after it. The callback is its write followed by its
  send, so a process that stops between the two, the store performing the write, leaves
  the marker behind, and the check of any later process sends nothing.
\<close>

theorem first_open_write_precedes_send:
  assumes "quiescent m" and "store m (firstOpenTime (asyncStorageKeys L)) = None"
    and "store m (marker_key L p) = None"
  shows "(\<exists>m'. first_open_check L d m = Some m' \<and>
            trace m' = trace m @
              [Storage_call (GetItem (firstOpenTime (asyncStorageKeys L))),
               Storage_done (GetItem (firstOpenTime (asyncStorageKeys L))) True,
               Storage_call (SetItem (firstOpenTime (asyncStorageKeys L))
                 (toString (clock m + int d))),
               Fetch_start (next_pid m + 4) (the_request L ''FIRST_OPEN'' [])]) \<and>
         (\<exists>m'. cadence_check L p d m = Some m' \<and>
            trace m' = trace m @
              [Storage_call (GetItem (marker_key L p)),
               Storage_done (GetItem (marker_key L p)) True,
               Fetch_start (next_pid m + 3) (the_request L (event_name p) []),
               Storage_call (SetItem (marker_key L p) (toString (clock m + int d)))]) \<and>
         on_firstOpenTime L Null m =
           (Fulfilled Undefined,
            snd (track L ''FIRST_OPEN'' []
              (snd (AsyncStorage
                 (SetItem (firstOpenTime (asyncStorageKeys L)) (toString (clock m))) m)))) \<and>
         (\<exists>m'. first_open_check L d' (boot now z (store (stopped_after_write L m))) = Some m' \<and>
            sent m' = [] \<and> storeQ m' = [])"
proof (intro conjI)
  show "\<exists>m'. first_open_check L d m = Some m' \<and>
            trace m' = trace m @
              [Storage_call (GetItem (firstOpenTime (asyncStorageKeys L))),
               Storage_done (GetItem (firstOpenTime (asyncStorageKeys L))) True,
               Storage_call (SetItem (firstOpenTime (asyncStorageKeys L))
                 (toString (clock m + int d))),
               Fetch_start (next_pid m + 4) (the_request L ''FIRST_OPEN'' [])]"
    using first_open_eq [OF assms(1), of L d] assms(2) by auto
  show "\<exists>m'. cadence_check L p d m = Some m' \<and>
            trace m' = trace m @
              [Storage_call (GetItem (marker_key L p)),
               Storage_done (GetItem (marker_key L p)) True,
               Fetch_start (next_pid m + 3) (the_request L (event_name p) []),
               Storage_call (SetItem (marker_key L p) (toString (clock m + int d)))]"
    using cadence_check_absent [OF assms(1,3)] .
  show "on_firstOpenTime L Null m =
           (Fulfilled Undefined,
            snd (track L ''FIRST_OPEN'' []
              (snd (AsyncStorage
                 (SetItem (firstOpenTime (asyncStorageKeys L)) (toString (clock m))) m))))"
    by (rule on_firstOpenTime_steps)
  have "store (boot now z (store (stopped_after_write L m))) (firstOpenTime (asyncStorageKeys L))
          \<noteq> None"
    using assms(1) by (simp add: stopped_after_write_store quiescent_def boot_def)
  with first_open_eq [OF quiescent_boot, of L d' now z "store (stopped_after_write L m)"]
  show "\<exists>m'. first_open_check L d' (boot now z (store (stopped_after_write L m))) = Some m' \<and>
            sent m' = [] \<and> storeQ m' = []"
    by (auto simp add: views boot_def)
qed

text \<open>A fresh installation, and the process of the day after.\<close>

theorem first_open_write_precedes_send_witness:
  "quiescent (boot 1793707200456 0 Map.empty) \<and>
   store (boot 1793707200456 0 Map.empty) (firstOpenTime (asyncStorageKeys abc)) = None \<and>
   store (boot 1793707200456 0 Map.empty) (marker_key abc Daily) = None \<and>
   map_option trace (first_open_check abc 0 (boot 1793707200456 0 Map.empty)) =
     Some [Storage_call (GetItem ''lumin_abc_first_open_time''),
           Storage_done (GetItem ''lumin_abc_first_open_time'') True,
           Storage_call (SetItem ''lumin_abc_first_open_time'' 1793707200),
           Fetch_start 4 (the_request abc ''FIRST_OPEN'' [])] \<and>
   map_option trace (cadence_check abc Daily 0 (boot 1793707200456 0 Map.empty)) =
     Some [Storage_call (GetItem ''lumin_abc_last_dau_tracked''),
           Storage_done (GetItem ''lumin_abc_last_dau_tracked'') True,
           Fetch_start 3 (the_request abc ''DAILY_ACTIVE_USER'' []),
           Storage_call (SetItem ''lumin_abc_last_dau_tracked'' 1793707200)] \<and>
   map_option sent
     (first_open_check abc 0
        (boot 1793793600000 0 (store (stopped_after_write abc (boot 1793707200456 0 Map.empty))))) =
     Some []"
  using first_open_write_precedes_send
    [of "boot 1793707200456 0 Map.empty" abc Daily 0 0 1793793600000 0]
  by (auto simp add: views boot_def installation toString_def)

section \<open>The constructor\<close>

lemma split_not_Nil: "split c s \<noteq> []"
  by (induction s) simp_all

lemma hd_split: "hd (split c s) = takeWhile (\<lambda>x. x \<noteq> c) s"
  by (induction s) simp_all

lemma tl_split:
  "tl (split c s) = (if c \<in> set s then split c (tl (dropWhile (\<lambda>x. x \<noteq> c) s)) else [])"
  by (induction s) auto

lemma element_0: "xs \<noteq> [] \<Longrightarrow> element xs 0 = Some (hd xs)"
  by (cases xs) (simp_all add: element_def)

lemma element_1: "xs \<noteq> [] \<Longrightarrow> element xs (Suc 0) = (if tl xs = [] then None else Some (hd (tl xs)))"
  by (cases xs; cases "tl xs") (auto simp add: element_def)

lemma first_piece: "element (split (CHR '':'') s) 0 = Some (first_half s)"
  by (simp add: element_0 split_not_Nil hd_split first_half_def)

lemma second_piece:
  "element (split (CHR '':'') s) (Suc 0) =
     (if CHR '':'' \<in> set s then Some (first_half (second_half s)) else None)"
  by (simp add: element_1 split_not_Nil tl_split hd_split first_half_def second_half_def)

lemma no_colon: "CHR '':'' \<notin> set s \<Longrightarrow> first_half (second_half s) = []"
proof -
  assume "CHR '':'' \<notin> set s"
  then have e: "dropWhile (\<lambda>c. c \<noteq> CHR '':'') s = []"
    by auto
  show ?thesis
    unfolding first_half_def second_half_def e by simp
qed

text \<open>
  Claim C6, as amended. Construction trims the token and cuts it at every colon. It
  fails with the malformed-token error when the first piece is empty or the second piece
  is empty or missing; otherwise it succeeds, with the application id and the secret
  bound to the first two pieces (what follows a second colon is dropped) and the six
  keys derived from the id. Either way it touches neither the store nor the network:
  of the machine only \<open>appState\<close> and \<open>sessionStartTime\<close> are set.
\<close>

theorem token_pieces:
  "new_Lumin os version currentState tok cfg m =
     (if first_half (trim tok) = [] \<or> first_half (second_half (trim tok)) = []
      then Inl MalformedToken
      else Inr (\<lparr>id_L = first_half (trim tok),
                 token = first_half (second_half (trim tok)),
                 config = spread defaultConfig cfg,
                 info = \<lparr>platform = os, platformVersion = version, luminVersion = ''0.4.2''\<rparr>,
                 asyncStorageKeys = storage_keys (first_half (trim tok))\<rparr>,
                m\<lparr>appState := currentState, sessionStartTime := clock m\<rparr>))"
  by (cases "CHR '':'' \<in> set (trim tok)")
     (simp_all add: new_Lumin_def Let_def first_piece second_piece falsy_string_def no_colon)

lemmas strings = trim_def white_space_def first_half_def second_half_def

text \<open>The two tokens of the specification's scenarios.\<close>

theorem token_pieces_witness:
  "new_Lumin ''ios'' ''17.0'' Active ''abc:def'' no_overrides (boot 0 0 Map.empty) =
     Inr (abc, boot 0 0 Map.empty) \<and>
   new_Lumin ''ios'' ''17.0'' Active ''notoken'' no_overrides (boot 0 0 Map.empty) =
     Inl MalformedToken"
  using token_pieces [of "''ios''" "''17.0''" Active "''abc:def''" no_overrides "boot 0 0 Map.empty"]
    token_pieces [of "''ios''" "''17.0''" Active "''notoken''" no_overrides "boot 0 0 Map.empty"]
  by (simp add: strings abc_def boot_def spread_def no_overrides_def override_def defaultConfig_def)

text \<open>
  Claim C6 as stated fails for a token with more than one colon. Cut at the first colon,
  \<open>a::b\<close> has the two non-empty halves \<open>a\<close> and \<open>:b\<close>, and construction fails;
  \<open>a:b:c\<close> has the halves \<open>a\<close> and \<open>b:c\<close>, and the secret is \<open>b\<close>.
\<close>

theorem first_colon_counterexample:
  "first_half (trim ''a::b'') = ''a'' \<and> second_half (trim ''a::b'') = '':b'' \<and>
   new_Lumin ''ios'' ''17.0'' Active ''a::b'' no_overrides (boot 0 0 Map.empty) =
     Inl MalformedToken \<and>
   first_half (trim ''a:b:c'') = ''a'' \<and> second_half (trim ''a:b:c'') = ''b:c'' \<and>
   map_sum id (\<lambda>r. token (fst r))
     (new_Lumin ''ios'' ''17.0'' Active ''a:b:c'' no_overrides (boot 0 0 Map.empty)) = Inr ''b''"
  by (simp add: strings new_Lumin_def element_def falsy_string_def)

section \<open>The promise of \<open>track\<close>\<close>

text \<open>
  Claim C4 does not hold of the source. On a fresh installation the daily evaluation
  asks for the write of the marker in the task that starts the request, and the store
  holds the marker while the request is still in flight; when the request then fails,
  the marker stays.
\<close>

theorem marker_written_before_reply:
  "map_option (\<lambda>m. (trace m, store m ''lumin_abc_last_dau_tracked'', map fst (netQ m)))
     (invoke abc (\<lambda>m. snd (trackDailyActiveUser abc m)) [Storage True, Storage True]
        (boot 1793707200123 0 Map.empty)) =
   Some ([Storage_call (GetItem ''lumin_abc_last_dau_tracked''),
          Storage_done (GetItem ''lumin_abc_last_dau_tracked'') True,
          Fetch_start 3 (the_request abc ''DAILY_ACTIVE_USER'' []),
          Storage_call (SetItem ''lumin_abc_last_dau_tracked'' 1793707200),
          Storage_done (SetItem ''lumin_abc_last_dau_tracked'' 1793707200) True],
         Some 1793707200, [3]) \<and>
   map_option (\<lambda>m. (trace m, store m ''lumin_abc_last_dau_tracked'', map fst (netQ m)))
     (invoke abc (\<lambda>m. snd (trackDailyActiveUser abc m))
        [Storage True, Storage True, Network 3 Failed]
        (boot 1793707200123 0 Map.empty)) =
   Some ([Storage_call (GetItem ''lumin_abc_last_dau_tracked''),
          Storage_done (GetItem ''lumin_abc_last_dau_tracked'') True,
          Fetch_start 3 (the_request abc ''DAILY_ACTIVE_USER'' []),
          Storage_call (SetItem ''lumin_abc_last_dau_tracked'' 1793707200),
          Storage_done (SetItem ''lumin_abc_last_dau_tracked'' 1793707200) True,
          Fetch_done 3 False,
          Console_log (ErrorValue ''network''),
          Unhandled_rejection (ErrorValue ''network'')],
         Some 1793707200, [])"
  by (simp add: boot_def trackDailyActiveUser_def trackPeriodActiveUser_def steps loop truthy_def
        resume_trackActiveUser_def track_then_persist_def track_eq persist_def on_error_def
        flag_def installation toString_def)

text \<open>
  Claim C7 does not hold of the source. The promise \<open>track\<close> returns is fulfilled when
  \<open>track\<close> returns; when the request fails, the error is logged and thrown again
  inside the handler, where it rejects the promise of the \<open>catch\<close> and nothing else:
  the promise of \<open>track\<close>, and that of \<open>trackCustomEvent\<close>, stay fulfilled.
\<close>

theorem track_promise_fulfilled_on_failure:
  "fst (track abc ''PURCHASE'' [] (boot 1793707200123 0 Map.empty)) = 0 \<and>
   lookup (snd (track abc ''PURCHASE'' [] (boot 1793707200123 0 Map.empty))) 0 =
     Some (Settled (Fulfilled Undefined)) \<and>
   map_option (\<lambda>m. (trace m, lookup m 0))
     (invoke abc (\<lambda>m. snd (track abc ''PURCHASE'' [] m)) [Network 1 Failed]
        (boot 1793707200123 0 Map.empty)) =
   Some ([Fetch_start 1 (the_request abc ''PURCHASE'' []),
          Fetch_done 1 False,
          Console_log (ErrorValue ''network''),
          Unhandled_rejection (ErrorValue ''network'')],
         Some (Settled (Fulfilled Undefined))) \<and>
   fst (trackCustomEvent abc ''PURCHASE'' [] (boot 1793707200123 0 Map.empty)) = 0 \<and>
   map_option (\<lambda>m. lookup m 0)
     (invoke abc (\<lambda>m. snd (trackCustomEvent abc ''PURCHASE'' [] m)) [Network 2 Failed]
        (boot 1793707200123 0 Map.empty)) =
   Some (Some (Settled (Fulfilled Undefined)))"
  by (simp add: boot_def trackCustomEvent_def steps loop track_eq on_error_def flag_def
        installation lookup_def)

section \<open>Reset\<close>

text \<open>
  Longer runs are taken one task at a time: each lemma below gives the machine after one
  task of the host, for a machine whose queue starts with the operation in question.
\<close>

lemmas weak = prod.case_cong_weak option.case_cong_weak list.case_cong_weak

lemma write_task:
  assumes "micro m = []" and "storeQ m = (SetItem k v, p) # rest"
    and "promises m p = Some (Pending [])" and "p < next_pid m"
  shows "task L (Storage True) m =
     Some (m\<lparr>storeQ := rest, store := (store m)(k \<mapsto> v),
             trace := trace m @ [Storage_done (SetItem k v) True],
             promises := (promises m)(p \<mapsto> Settled (Fulfilled Null))\<rparr>)"
  using assms
  by (simp add: task_def storage_task_def perform_def observe_def settle_fulfil drain_Nil
        cong: weak)

lemma remove_task:
  assumes "micro m = []" and "storeQ m = (RemoveItem k, p) # rest"
    and "promises m p = Some (Pending [All_element a])" and "p < next_pid m"
    and "all_count m a = Some (Suc (Suc c))"
  shows "task L (Storage True) m =
     Some (m\<lparr>storeQ := rest, store := (store m)(k := None),
             trace := trace m @ [Storage_done (RemoveItem k) True],
             promises := (promises m)(p \<mapsto> Settled (Fulfilled Null)),
             all_count := (all_count m)(a \<mapsto> Suc c)\<rparr>)"
  using assms
  apply (simp add: task_def storage_task_def perform_def observe_def settle_fulfil cong: weak)
  apply (simp add: drain_Cons react_def all_element_def cong: weak)
  apply (simp add: drain_Nil cong: weak)
  done

lemma remove_task_last:
  assumes "micro m = []" and "storeQ m = (RemoveItem k, p) # rest"
    and "promises m p = Some (Pending [All_element a])" and "p < next_pid m"
    and "all_count m a = Some (Suc 0)"
    and "promises m a = Some (Pending [Await K_clear d])" and "a < next_pid m" and "a \<noteq> p"
    and "promises m d = Some (Pending [])" and "d < next_pid m" and "d \<noteq> p" and "d \<noteq> a"
  shows "task L (Storage True) m =
     Some (m\<lparr>storeQ := rest, store := (store m)(k := None),
             trace := trace m @ [Storage_done (RemoveItem k) True],
             all_count := (all_count m)(a \<mapsto> 0),
             promises := (promises m)
               (p \<mapsto> Settled (Fulfilled Null),
                a \<mapsto> Settled (Fulfilled Undefined),
                d \<mapsto> Settled (Fulfilled Undefined))\<rparr>)"
  using assms
  apply (simp add: task_def storage_task_def perform_def observe_def settle_fulfil cong: weak)
  apply (simp add: drain_Cons react_def all_element_def cong: weak)
  apply (simp add: settle_fulfil cong: weak)
  apply (simp add: drain_Cons react_def run_kont_def cong: weak)
  apply (simp add: settle_fulfil cong: weak)
  apply (simp add: drain_Nil cong: weak)
  done

lemma remove_task_fail:
  assumes "micro m = []" and "storeQ m = (RemoveItem k, p) # rest"
    and "promises m p = Some (Pending [All_element a])" and "p < next_pid m"
    and "promises m a = Some (Pending [Await K_clear d])" and "a < next_pid m" and "a \<noteq> p"
    and "promises m d = Some (Pending [])" and "d < next_pid m" and "d \<noteq> p" and "d \<noteq> a"
  shows "task L (Storage False) m =
     Some (m\<lparr>storeQ := rest,
             promises := (promises m)
               (p \<mapsto> Settled (Rejected (ErrorValue ''storage'')),
                a \<mapsto> Settled (Rejected (ErrorValue ''storage'')),
                d \<mapsto> Settled (Rejected (ErrorValue ''storage''))),
             trace := trace m @
               [Storage_done (RemoveItem k) False,
                Unhandled_rejection (ErrorValue ''storage'')]\<rparr>)"
  using assms
  apply (simp add: task_def storage_task_def perform_def observe_def settle_reject cong: weak)
  apply (simp add: drain_Cons react_def all_element_def cong: weak)
  apply (simp add: settle_reject cong: weak)
  apply (simp add: drain_Cons react_def run_kont_def cong: weak)
  apply (simp add: settle_unhandled cong: weak)
  apply (simp add: drain_Nil cong: weak)
  done

lemma clear_eq:
  "clearLuminItemsFromAsyncStorage L m =
    (next_pid m + 7,
     m\<lparr>storeQ := storeQ m @
         [(RemoveItem (firstOpenTime (asyncStorageKeys L)), next_pid m),
          (RemoveItem (endOfLastSession (asyncStorageKeys L)), next_pid m + 1),
          (RemoveItem (lastDauTracked (asyncStorageKeys L)), next_pid m + 2),
          (RemoveItem (lastWauTracked (asyncStorageKeys L)), next_pid m + 3),
          (RemoveItem (lastMauTracked (asyncStorageKeys L)), next_pid m + 4),
          (RemoveItem (lastYauTracked (asyncStorageKeys L)), next_pid m + 5)],
        trace := trace m @
          [Storage_call (RemoveItem (firstOpenTime (asyncStorageKeys L))),
           Storage_call (RemoveItem (endOfLastSession (asyncStorageKeys L))),
           Storage_call (RemoveItem (lastDauTracked (asyncStorageKeys L))),
           Storage_call (RemoveItem (lastWauTracked (asyncStorageKeys L))),
           Storage_call (RemoveItem (lastMauTracked (asyncStorageKeys L))),
           Storage_call (RemoveItem (lastYauTracked (asyncStorageKeys L)))],
        all_count := (all_count m)(next_pid m + 6 \<mapsto> 6),
        next_pid := next_pid m + 8,
        promises := (promises m)
          (next_pid m \<mapsto> Pending [All_element (next_pid m + 6)],
           next_pid m + 1 \<mapsto> Pending [All_element (next_pid m + 6)],
           next_pid m + 2 \<mapsto> Pending [All_element (next_pid m + 6)],
           next_pid m + 3 \<mapsto> Pending [All_element (next_pid m + 6)],
           next_pid m + 4 \<mapsto> Pending [All_element (next_pid m + 6)],
           next_pid m + 5 \<mapsto> Pending [All_element (next_pid m + 6)],
           next_pid m + 7 \<mapsto> Pending [],
           next_pid m + 6 \<mapsto> Pending [Await K_clear (next_pid m + 7)])\<rparr>)"
  apply (simp add: clearLuminItemsFromAsyncStorage_def AsyncStorage_eq cong: weak)
  apply (simp add: Promise_all_def new_promise_def cong: weak)
  apply (simp add: subscribe_pending cong: weak)
  apply (simp add: await_p_def new_promise_def cong: weak)
  apply (simp add: subscribe_pending cong: weak)
  apply (simp add: eval_nat_numeral)
  done

lemma reset_done:
  assumes "quiescent m"
  shows "\<exists>m'. reset L [Storage True, Storage True, Storage True,
                        Storage True, Storage True, Storage True] m = Some m' \<and>
     quiescent m' \<and>
     lookup m' (next_pid m + 7) = Some (Settled (Fulfilled Undefined)) \<and>
     store m' = (store m)
       (firstOpenTime (asyncStorageKeys L) := None,
        endOfLastSession (asyncStorageKeys L) := None,
        lastDauTracked (asyncStorageKeys L) := None,
        lastWauTracked (asyncStorageKeys L) := None,
        lastMauTracked (asyncStorageKeys L) := None,
        lastYauTracked (asyncStorageKeys L) := None) \<and>
     sent m' = sent m \<and> sessionStartTime m' = sessionStartTime m \<and>
     appState m' = appState m \<and> clock m' = clock m \<and> tz m' = tz m"
  using assms
  apply (simp add: quiescent_def reset_def invoke_def call_def clear_eq drain_Nil cong: weak)
  apply (simp add: remove_task remove_task_last eval_nat_numeral cong: weak)
  apply (simp add: views lookup_def)
  done

lemma trackPeriod_eq:
  "trackPeriodActiveUser L p m =
     (Suc (next_pid m),
      m\<lparr>storeQ := storeQ m @ [(GetItem (marker_key L p), next_pid m)],
        trace := trace m @ [Storage_call (GetItem (marker_key L p))],
        next_pid := Suc (Suc (next_pid m)),
        promises := (promises m)
          (Suc (next_pid m) \<mapsto> Pending [],
           next_pid m \<mapsto> Pending [Await (K_trackActiveUser p) (Suc (next_pid m))])\<rparr>)"
  apply (simp add: trackPeriodActiveUser_def AsyncStorage_eq cong: weak)
  apply (simp add: await_p_def new_promise_def cong: weak)
  apply (simp add: subscribe_pending cong: weak)
  done

lemma task_Tick: "task L (Tick d) m = Some (m\<lparr>clock := clock m + int d\<rparr>)"
  by (simp add: task_def)

lemmas cadences = trackActiveUser_def trackDailyActiveUser_def trackWeeklyActiveUser_def
  trackMonthlyActiveUser_def trackYearlyActiveUser_def trackPeriod_eq

lemma cadence_task_absent:
  assumes "micro m = []" and "storeQ m = (GetItem k, g) # rest"
    and "promises m g = Some (Pending [Await (K_trackActiveUser p) d])" and "g < next_pid m"
    and "promises m d = Some (Pending [])" and "d < next_pid m" and "d \<noteq> g"
    and "store m k = None"
  shows "task L (Storage True) m =
     Some (m\<lparr>netQ := netQ m @ [(Suc (next_pid m), the_request L (event_name p) [])],
             next_pid := Suc (Suc (Suc (Suc (Suc (Suc (next_pid m)))))),
             storeQ := rest @
               [(SetItem (marker_key L p) (toString (clock m)),
                 Suc (Suc (Suc (Suc (Suc (next_pid m))))))],
             trace := trace m @
               [Storage_done (GetItem k) True,
                Fetch_start (Suc (next_pid m)) (the_request L (event_name p) []),
                Storage_call (SetItem (marker_key L p) (toString (clock m)))],
             promises := (promises m)
               (g \<mapsto> Settled (Fulfilled Null),
                next_pid m \<mapsto> Settled (Fulfilled Undefined),
                Suc (next_pid m) \<mapsto> Pending [Then CB_response (Suc (Suc (next_pid m)))],
                Suc (Suc (next_pid m)) \<mapsto>
                  Pending [Catch CB_error (Suc (Suc (Suc (next_pid m))))],
                Suc (Suc (Suc (next_pid m))) \<mapsto> Pending [],
                d \<mapsto> Settled (Fulfilled Undefined),
                Suc (Suc (Suc (Suc (Suc (next_pid m))))) \<mapsto> Pending [],
                Suc (Suc (Suc (Suc (next_pid m)))) \<mapsto> Settled (Fulfilled Undefined))\<rparr>)"
  using assms
  apply (simp add: task_def storage_task_def perform_def observe_def settle_fulfil cong: weak)
  apply (simp add: drain_Cons react_def run_kont_def resume_trackActiveUser_def truthy_def
           track_then_persist_def cong: weak)
  apply (simp add: track_eq cong: weak)
  apply (simp add: then_p_def new_promise_def cong: weak)
  apply (simp add: subscribe_settled cong: weak)
  apply (simp add: settle_fulfil cong: weak)
  apply (simp add: drain_Cons react_def run_callback_def persist_def AsyncStorage_eq cong: weak)
  apply (simp add: settle_fulfil cong: weak)
  apply (simp add: drain_Nil cong: weak)
  done

lemma evaluate_all_absent:
  assumes "quiescent m"
    and "store m (marker_key L Daily) = None" and "store m (marker_key L Weekly) = None"
    and "store m (marker_key L Monthly) = None" and "store m (marker_key L Yearly) = None"
  shows "\<exists>m'. evaluate_all L d m = Some m' \<and> quiescent m' \<and> sent m' = sent m @ all_four"
  using assms
  apply (simp add: quiescent_def evaluate_all_def invoke_def call_def cadences drain_Nil cong: weak)
  apply (simp add: task_Tick cong: weak)
  apply (simp add: cadence_task_absent cong: weak)
  apply (simp add: write_task cong: weak)
  apply (simp add: views all_four_def event_name_def the_request_simps)
  done


lemma reset_called:
  assumes "quiescent m"
  shows "\<exists>m'. reset L [] m = Some m' \<and>
     map fst (storeQ m') =
       [RemoveItem (firstOpenTime (asyncStorageKeys L)),
        RemoveItem (endOfLastSession (asyncStorageKeys L)),
        RemoveItem (lastDauTracked (asyncStorageKeys L)),
        RemoveItem (lastWauTracked (asyncStorageKeys L)),
        RemoveItem (lastMauTracked (asyncStorageKeys L)),
        RemoveItem (lastYauTracked (asyncStorageKeys L))] \<and>
     store m' = store m \<and>
     lookup m' (fst (clearLuminItemsFromAsyncStorage L m)) = Some (Pending [])"
  using assms
  apply (simp add: quiescent_def reset_def invoke_def call_def clear_eq drain_Nil cong: weak)
  apply (simp add: lookup_def)
  done

lemma reset_five:
  assumes "quiescent m"
  shows "\<exists>m'. reset L [Storage True, Storage True, Storage True, Storage True, Storage True] m
            = Some m' \<and>
     map fst (storeQ m') = [RemoveItem (lastYauTracked (asyncStorageKeys L))] \<and>
     lookup m' (fst (clearLuminItemsFromAsyncStorage L m)) = Some (Pending [])"
  using assms
  apply (simp add: quiescent_def reset_def invoke_def call_def clear_eq drain_Nil cong: weak)
  apply (simp add: remove_task eval_nat_numeral cong: weak)
  apply (simp add: lookup_def)
  done

lemma reset_failed:
  assumes "quiescent m"
  shows "\<exists>m'. reset L [Storage False] m = Some m' \<and>
     map fst (storeQ m') =
       [RemoveItem (endOfLastSession (asyncStorageKeys L)),
        RemoveItem (lastDauTracked (asyncStorageKeys L)),
        RemoveItem (lastWauTracked (asyncStorageKeys L)),
        RemoveItem (lastMauTracked (asyncStorageKeys L)),
        RemoveItem (lastYauTracked (asyncStorageKeys L))] \<and>
     lookup m' (fst (clearLuminItemsFromAsyncStorage L m)) =
       Some (Settled (Rejected (ErrorValue ''storage'')))"
  using assms
  apply (simp add: quiescent_def reset_def invoke_def call_def clear_eq drain_Nil cong: weak)
  apply (simp add: remove_task_fail eval_nat_numeral cong: weak)
  apply (simp add: lookup_def)
  done

lemma reset_settled:
  assumes "quiescent m"
  shows "\<exists>m'. reset L [Storage True, Storage True, Storage True,
                        Storage True, Storage True, Storage True] m = Some m' \<and>
     quiescent m' \<and>
     lookup m' (fst (clearLuminItemsFromAsyncStorage L m)) = Some (Settled (Fulfilled Undefined)) \<and>
     store m' = (store m)
       (firstOpenTime (asyncStorageKeys L) := None,
        endOfLastSession (asyncStorageKeys L) := None,
        lastDauTracked (asyncStorageKeys L) := None,
        lastWauTracked (asyncStorageKeys L) := None,
        lastMauTracked (asyncStorageKeys L) := None,
        lastYauTracked (asyncStorageKeys L) := None) \<and>
     sent m' = sent m \<and> sessionStartTime m' = sessionStartTime m \<and>
     appState m' = appState m"
  using reset_done [OF assms, of L] by (auto simp add: clear_eq)

text \<open>
  Claim C9, as amended. \<open>reset()\<close> asks for the six deletes at once, before any of them
  is performed; its promise is still pending after five successful deletes and is
  fulfilled by the sixth, with the six keys gone from the store, no event sent and the
  session state as it was; a failed delete rejects it at once, while the other deletes
  are still queued. When the six deletes succeed, the cadence evaluation that follows
  sends the four events, as it does on a fresh installation.
\<close>

theorem reset_then_fresh:
  assumes "quiescent m"
  shows "(\<exists>m'. reset L [] m = Some m' \<and>
           map fst (storeQ m') =
             [RemoveItem (firstOpenTime (asyncStorageKeys L)),
              RemoveItem (endOfLastSession (asyncStorageKeys L)),
              RemoveItem (lastDauTracked (asyncStorageKeys L)),
              RemoveItem (lastWauTracked (asyncStorageKeys L)),
              RemoveItem (lastMauTracked (asyncStorageKeys L)),
              RemoveItem (lastYauTracked (asyncStorageKeys L))] \<and>
           store m' = store m \<and>
           lookup m' (fst (clearLuminItemsFromAsyncStorage L m)) = Some (Pending [])) \<and>
         (\<exists>m'. reset L [Storage True, Storage True, Storage True, Storage True, Storage True] m
                  = Some m' \<and>
           map fst (storeQ m') = [RemoveItem (lastYauTracked (asyncStorageKeys L))] \<and>
           lookup m' (fst (clearLuminItemsFromAsyncStorage L m)) = Some (Pending [])) \<and>
         (\<exists>m'. reset L [Storage True, Storage True, Storage True,
                         Storage True, Storage True, Storage True] m = Some m' \<and>
           quiescent m' \<and>
           lookup m' (fst (clearLuminItemsFromAsyncStorage L m)) =
             Some (Settled (Fulfilled Undefined)) \<and>
           store m' = (store m)
             (firstOpenTime (asyncStorageKeys L) := None,
              endOfLastSession (asyncStorageKeys L) := None,
              lastDauTracked (asyncStorageKeys L) := None,
              lastWauTracked (asyncStorageKeys L) := None,
              lastMauTracked (asyncStorageKeys L) := None,
              lastYauTracked (asyncStorageKeys L) := None) \<and>
           sent m' = sent m \<and> sessionStartTime m' = sessionStartTime m \<and>
           appState m' = appState m) \<and>
         (\<exists>m'. reset L [Storage False] m = Some m' \<and>
           map fst (storeQ m') =
             [RemoveItem (endOfLastSession (asyncStorageKeys L)),
              RemoveItem (lastDauTracked (asyncStorageKeys L)),
              RemoveItem (lastWauTracked (asyncStorageKeys L)),
              RemoveItem (lastMauTracked (asyncStorageKeys L)),
              RemoveItem (lastYauTracked (asyncStorageKeys L))] \<and>
           lookup m' (fst (clearLuminItemsFromAsyncStorage L m)) =
             Some (Settled (Rejected (ErrorValue ''storage'')))) \<and>
         (\<exists>m' f. reset_then_evaluate L d m = Some m' \<and> sent m' = sent m @ all_four \<and>
            evaluate_all L d (boot now z Map.empty) = Some f \<and> sent f = all_four)"
proof (intro conjI)
  obtain m1 where m1:
    "reset L [Storage True, Storage True, Storage True,
              Storage True, Storage True, Storage True] m = Some m1"
    "quiescent m1" "sent m1 = sent m"
    "store m1 = (store m)
       (firstOpenTime (asyncStorageKeys L) := None,
        endOfLastSession (asyncStorageKeys L) := None,
        lastDauTracked (asyncStorageKeys L) := None,
        lastWauTracked (asyncStorageKeys L) := None,
        lastMauTracked (asyncStorageKeys L) := None,
        lastYauTracked (asyncStorageKeys L) := None)"
    using reset_done [OF assms, of L] by auto
  have absent: "store m1 (marker_key L p) = None" for p
    by (cases p) (simp_all add: m1(4) marker_key_def)
  obtain m2 where m2: "evaluate_all L d m1 = Some m2" "sent m2 = sent m1 @ all_four"
    using evaluate_all_absent [OF m1(2) absent absent absent absent, of d] by auto
  obtain f where f: "evaluate_all L d (boot now z Map.empty) = Some f"
    "sent f = sent (boot now z Map.empty) @ all_four"
    using evaluate_all_absent [of "boot now z Map.empty" L d]
    by (auto simp add: quiescent_def boot_def)
  show "\<exists>m' f. reset_then_evaluate L d m = Some m' \<and> sent m' = sent m @ all_four \<and>
            evaluate_all L d (boot now z Map.empty) = Some f \<and> sent f = all_four"
    using m1 m2 f by (simp add: reset_then_evaluate_def views boot_def)
qed (use reset_called [OF assms, of L] reset_five [OF assms, of L]
      reset_settled [OF assms, of L] reset_failed [OF assms, of L] in blast)+

text \<open>A store that holds a daily marker, and the fresh installation.\<close>

theorem reset_then_fresh_witness:
  "quiescent (boot 1793707200000 0 [''lumin_abc_last_dau_tracked'' \<mapsto> 1793703600]) \<and>
   map_option sent
     (reset_then_evaluate abc 0
        (boot 1793707200000 0 [''lumin_abc_last_dau_tracked'' \<mapsto> 1793703600])) =
   Some all_four \<and>
   map_option sent (evaluate_all abc 0 (boot 1793707200000 0 Map.empty)) = Some all_four"
  using reset_then_fresh
    [of "boot 1793707200000 0 [''lumin_abc_last_dau_tracked'' \<mapsto> 1793703600]" abc 0
        1793707200000 0]
  by (auto simp add: views boot_def)

lemma cadence_task_skip:
  assumes "micro m = []" and "storeQ m = (GetItem k, g) # rest"
    and "promises m g = Some (Pending [Await (K_trackActiveUser p) d])" and "g < next_pid m"
    and "promises m d = Some (Pending [])" and "d < next_pid m" and "d \<noteq> g"
    and "store m k = Some t" and "\<not> timeCondition L p (tz m) (clock m) (DateText t)"
  shows "task L (Storage True) m =
     Some (m\<lparr>storeQ := rest,
             trace := trace m @ [Storage_done (GetItem k) True],
             promises := (promises m)
               (g \<mapsto> Settled (Fulfilled (DateText t)),
                d \<mapsto> Settled (Fulfilled Undefined))\<rparr>)"
  using assms
  apply (simp add: task_def storage_task_def perform_def observe_def settle_fulfil cong: weak)
  apply (simp add: drain_Cons react_def run_kont_def resume_trackActiveUser_def truthy_def
           cong: weak)
  apply (simp add: settle_fulfil cong: weak)
  apply (simp add: drain_Nil cong: weak)
  done

lemma task_empty: "micro m = [] \<Longrightarrow> storeQ m = [] \<Longrightarrow> task L (Storage ok) m = Some m"
  by (simp add: task_def storage_task_def drain_Nil)

text \<open>
  Claim C9 as stated fails when a delete fails. The store fails the third delete, that of
  the daily marker: the promise of \<open>reset()\<close> is rejected while three deletes are still
  queued, and the cadence evaluation after the reset sends three events, not four (the
  daily marker is still there, and it is of today).
\<close>

theorem failed_delete_counterexample:
  "map_option (\<lambda>m. (lookup m 7, map fst (storeQ m)))
     (reset abc [Storage True, Storage True, Storage False]
        (boot 1793707200000 0 [''lumin_abc_last_dau_tracked'' \<mapsto> 1793703600])) =
   Some (Some (Settled (Rejected (ErrorValue ''storage''))),
         [RemoveItem ''lumin_abc_last_wau_tracked'',
          RemoveItem ''lumin_abc_last_mau_tracked'',
          RemoveItem ''lumin_abc_last_yau_tracked'']) \<and>
   map_option sent
     (reset_third_fails abc 0
        (boot 1793707200000 0 [''lumin_abc_last_dau_tracked'' \<mapsto> 1793703600])) =
   Some [''WEEKLY_ACTIVE_USER'', ''MONTHLY_ACTIVE_USER'', ''YEARLY_ACTIVE_USER'']"
  apply (simp add: reset_third_fails_def reset_def invoke_def call_def clear_eq drain_Nil boot_def cong: weak)
  apply (simp add: remove_task remove_task_fail eval_nat_numeral cong: weak)
  apply (simp add: evaluate_all_def invoke_def call_def cadences drain_Nil task_Tick cong: weak)
  apply (simp add: installation cong: weak)
  apply (simp add: cadence_task_absent cadence_task_skip timeCondition_calendar installation calendar
          cong: weak)
  apply (simp add: write_task task_empty cong: weak)
  apply (simp add: views lookup_def the_request_simps)
  done

end
